theory Spec2Isabelle
  imports Complex_Main
begin

section \<open>The discovery server's peer registry (scripts/simple-discovery.py)\<close>

text \<open>
  The server keeps one module-level dictionary \<open>peers\<close> and answers HTTP requests from
  the two handler methods \<open>do_POST\<close> and \<open>do_GET\<close>. Each branch of the two methods that
  touches \<open>peers\<close> is embedded as a function from the request's inputs and the registry
  to the events the handler emits (responses written and lines logged, in order)
  and the registry it leaves behind.

  What the handlers get from the library is taken as an input: the value of
  \<open>time.time()\<close>, the result of \<open>json.loads\<close> on the body, the dictionary that
  \<open>parse_qs\<close> returns, and the builtin \<open>int\<close> on strings (the parameter \<open>parse_int\<close>,
  \<open>None\<close> where the builtin raises \<open>ValueError\<close>). Timestamps are Python floats;
  they are modelled as reals, so rounding, \<open>NaN\<close> and infinities are left out.

  The class overrides \<open>log_message\<close> (lines 22-25) to print \<open>format % args\<close>. The
  handlers call it with one finished string and no \<open>args\<close>, so the \<open>%\<close> operator
  raises when that string holds a \<open>%\<close> that is not an escaped one, which a peer
  identifier or an address can bring in. Whether a line prints is the parameter
  \<open>log_raises\<close>: \<open>None\<close> when it does, the exception otherwise.
\<close>

subsection \<open>JSON values as Python sees them\<close>

datatype json =
    JNull
  | JBool bool
  | JInt int
  | JFloat real
  | JString string
  | JArray "json list"
  | JObject "(string \<times> json) list"

text \<open>Python's truth value of a decoded JSON value (\<open>not x\<close> is its negation).\<close>

fun truthy :: "json \<Rightarrow> bool" where
  "truthy JNull = False"
| "truthy (JBool b) = b"
| "truthy (JInt n) = (n \<noteq> 0)"
| "truthy (JFloat x) = (x \<noteq> 0)"
| "truthy (JString s) = (s \<noteq> [])"
| "truthy (JArray xs) = (xs \<noteq> [])"
| "truthy (JObject kvs) = (kvs \<noteq> [])"

text \<open>\<open>a or b\<close>: the first operand when it is true, the second otherwise.\<close>

definition py_or :: "json \<Rightarrow> json \<Rightarrow> json" where
  "py_or a b = (if truthy a then a else b)"

text \<open>
  \<open>data.get(k)\<close> and \<open>data.get(k, default)\<close> on a decoded JSON object. The object is
  an association list read by \<open>map_of\<close>; a missing key gives \<open>None\<close>, which is also
  what a JSON \<open>null\<close> decodes to.
\<close>

definition dict_get :: "(string \<times> json) list \<Rightarrow> string \<Rightarrow> json" where
  "dict_get d k = (case map_of d k of None \<Rightarrow> JNull | Some v \<Rightarrow> v)"

definition dict_get_default :: "(string \<times> json) list \<Rightarrow> string \<Rightarrow> json \<Rightarrow> json" where
  "dict_get_default d k dflt = (case map_of d k of None \<Rightarrow> dflt | Some v \<Rightarrow> v)"

text \<open>\<open>int(x)\<close> on a float truncates toward zero.\<close>

definition py_int :: "real \<Rightarrow> int" where
  "py_int x = (if 0 \<le> x then \<lfloor>x\<rfloor> else \<lceil>x\<rceil>)"

subsection \<open>Dictionary keys\<close>

text \<open>
  A Python dictionary compares keys by \<open>==\<close> and hash: \<open>True\<close>, \<open>1\<close> and \<open>1.0\<close> are
  one key, a string is a key of its own, and a list or a dictionary is unhashable
  (\<open>TypeError\<close>, here \<open>None\<close>).
\<close>

datatype pykey = KNone | KNum real | is_KStr: KStr (key_text: string)

fun py_hash :: "json \<Rightarrow> pykey option" where
  "py_hash JNull = Some KNone"
| "py_hash (JBool b) = Some (KNum (if b then 1 else 0))"
| "py_hash (JInt n) = Some (KNum (of_int n))"
| "py_hash (JFloat x) = Some (KNum x)"
| "py_hash (JString s) = Some (KStr s)"
| "py_hash (JArray xs) = None"
| "py_hash (JObject kvs) = None"

subsection \<open>The registry\<close>

text \<open>One value of \<open>peers\<close>: the dictionary built at lines 51-58.\<close>

record peer_info =
  peer_id :: json
  ip :: json
  port :: json
  is_public :: json
  last_seen :: real
  registered_at :: real

text \<open>
  \<open>peers\<close> is an association list in insertion order, as a Python dictionary is; it
  stands for a dictionary when its keys are distinct (\<open>wf_registry\<close>).
\<close>

type_synonym registry = "(pykey \<times> peer_info) list"

definition wf_registry :: "registry \<Rightarrow> bool" where
  "wf_registry peers = distinct (map fst peers)"

text \<open>\<open>d[k] = v\<close>: replaces the value in place, or appends a new entry.\<close>

fun dict_setitem :: "('k \<times> 'v) list \<Rightarrow> 'k \<Rightarrow> 'v \<Rightarrow> ('k \<times> 'v) list" where
  "dict_setitem [] k v = [(k, v)]"
| "dict_setitem ((k', v') # d) k v =
     (if k' = k then (k', v) # d else (k', v') # dict_setitem d k v)"

datatype exn =
    AttributeError
  | TypeError
  | ValueError
  | IndexError
  | KeyError
  | UnicodeDecodeError
  | JSONDecodeError

text \<open>\<open>del d[k]\<close>: raises \<open>KeyError\<close> when the key is not there.\<close>

fun dict_delitem :: "('k \<times> 'v) list \<Rightarrow> 'k \<Rightarrow> exn + ('k \<times> 'v) list" where
  "dict_delitem [] k = Inl KeyError"
| "dict_delitem ((k', v') # d) k =
     (if k' = k then Inr d
      else (case dict_delitem d k of Inl e \<Rightarrow> Inl e | Inr d' \<Rightarrow> Inr ((k', v') # d')))"

subsection \<open>What a handler emits\<close>

datatype action = Registered | Updated

datatype lookup_entry =
  LookupEntry (entry_peer_id: json) (ip_address: json) (entry_port: json) (entry_is_public: json)

record stats =
  total_peers :: int
  active_peers :: int
  public_peers :: int
  private_peers :: int
  uptime_seconds :: int

datatype payload =
    RegisterReply json
  | LookupReply "lookup_entry list" nat
  | PeersReply registry nat real
  | StatsReply stats

datatype log_line =
    LogRegister action string json json json
  | LogLookup string nat
  | LogRemoving string int
  | LogReturned nat

text \<open>The text of an error response: a literal, or \<open>str(e)\<close> of the exception caught.\<close>

datatype reason = Msg string | Str exn

datatype event =
    send_response nat payload
  | send_error nat reason
  | log_message log_line

text \<open>
  A call of \<open>log_message\<close> that is the last statement of a \<open>try\<close> block: the line is
  printed, or the exception it raises is caught and answered with a 500.
\<close>

definition log_or_fail :: "(log_line \<Rightarrow> exn option) \<Rightarrow> log_line \<Rightarrow> event" where
  "log_or_fail log_raises line =
     (case log_raises line of
        None \<Rightarrow> log_message line
      | Some e \<Rightarrow> send_error 500 (Str e))"

subsection \<open>Registration: \<open>do_POST\<close> on \<open>/register\<close>, lines 29-77\<close>

text \<open>
  Lines 39-72, from the decoded body \<open>data\<close> on. A body that is not an object has
  no \<open>get\<close> (\<open>AttributeError\<close>); an unhashable \<open>peer_id\<close> raises at
  \<open>peer_id not in peers\<close>; a \<open>peer_id\<close> that is not a string raises at
  \<open>peer_id[:16]\<close> in the log line, after the record is stored and the 201 is
  written, and so does a log line that does not print. Every exception ends in
  \<open>send_error(500, str(e))\<close>.
\<close>

definition register ::
  "(log_line \<Rightarrow> exn option) \<Rightarrow> real \<Rightarrow> json \<Rightarrow> registry \<Rightarrow> event list \<times> registry" where
  "register log_raises now data peers =
     (case data of
        JObject d \<Rightarrow>
          (let peer_id = dict_get d ''peer_id'';
               ip = py_or (dict_get d ''ip'') (dict_get d ''ip_address'');
               port = dict_get_default d ''port'' (JInt 8443);
               is_public = dict_get_default d ''is_public'' (JBool False)
           in if \<not> truthy peer_id \<or> \<not> truthy ip
              then ([send_error 400 (Msg ''Missing peer_id or ip'')], peers)
              else
                (case py_hash peer_id of
                   None \<Rightarrow> ([send_error 500 (Str TypeError)], peers)
                 | Some k \<Rightarrow>
                     (let is_new = (map_of peers k = None);
                          info = \<lparr>peer_id = peer_id, ip = ip, port = port,
                                  is_public = is_public, last_seen = now,
                                  registered_at =
                                    (case map_of peers k of
                                       Some old \<Rightarrow> registered_at old
                                     | None \<Rightarrow> now)\<rparr>;
                          peers' = dict_setitem peers k info;
                          action = (if is_new then Registered else Updated)
                      in (case peer_id of
                            JString s \<Rightarrow>
                              ([send_response 201 (RegisterReply peer_id),
                                log_or_fail log_raises
                                  (LogRegister action (take 16 s) ip port is_public)],
                               peers')
                          | _ \<Rightarrow>
                              ([send_response 201 (RegisterReply peer_id),
                                send_error 500 (Str TypeError)],
                               peers')))))
      | _ \<Rightarrow> ([send_error 500 (Str AttributeError)], peers))"

text \<open>
  Lines 30-37 and the two \<open>except\<close> clauses around them. \<open>content_length_header\<close> is
  \<open>self.headers.get('Content-Length')\<close>; \<open>loads\<close> is what
  \<open>json.loads(body.decode('utf-8'))\<close> returns or raises.
\<close>

definition do_POST_register ::
  "(string \<Rightarrow> int option) \<Rightarrow> (log_line \<Rightarrow> exn option) \<Rightarrow> real \<Rightarrow> string option
     \<Rightarrow> exn + json \<Rightarrow> registry \<Rightarrow> event list \<times> registry" where
  "do_POST_register parse_int log_raises now content_length_header loads peers =
     (case (case content_length_header of None \<Rightarrow> Some 0 | Some h \<Rightarrow> parse_int h) of
        None \<Rightarrow> ([send_error 500 (Str ValueError)], peers)
      | Some content_length \<Rightarrow>
          if content_length = 0
          then ([send_error 400 (Msg ''Empty request body'')], peers)
          else
            (case loads of
               Inl e \<Rightarrow>
                 (if e = JSONDecodeError
                  then ([send_error 400 (Msg ''Invalid JSON'')], peers)
                  else ([send_error 500 (Str e)], peers))
             | Inr data \<Rightarrow> register log_raises now data peers))"

subsection \<open>Lookup: \<open>do_GET\<close> on \<open>/api/peers/lookup\<close>, lines 133-172\<close>

text \<open>
  \<open>params\<close> is the dictionary of \<open>parse_qs\<close>: each key with the list of its values.
  \<open>params.get(k, [dflt])[0]\<close> raises \<open>IndexError\<close> on an empty list. The whole branch
  is inside one \<open>try\<close>, and \<open>count\<close> is converted before \<open>peer_id\<close> is checked
  (\<open>peer_id'\<close> below is the source's \<open>peer_id\<close>, primed apart from the record field).
\<close>

definition do_GET_lookup ::
  "(string \<Rightarrow> int option) \<Rightarrow> (log_line \<Rightarrow> exn option) \<Rightarrow> real
     \<Rightarrow> (string \<times> string list) list \<Rightarrow> registry \<Rightarrow> event list \<times> registry" where
  "do_GET_lookup parse_int log_raises now params peers =
     (case (case map_of params ''peer_id'' of
              None \<Rightarrow> Inr None
            | Some [] \<Rightarrow> Inl IndexError
            | Some (v # _) \<Rightarrow> Inr (Some v)) of
        Inl e \<Rightarrow> ([send_error 500 (Str e)], peers)
      | Inr peer_id' \<Rightarrow>
          (case (case map_of params ''count'' of
                   None \<Rightarrow> Inr (10 :: int)
                 | Some [] \<Rightarrow> Inl IndexError
                 | Some (c # _) \<Rightarrow>
                     (case parse_int c of None \<Rightarrow> Inl ValueError | Some n \<Rightarrow> Inr n)) of
             Inl e \<Rightarrow> ([send_error 500 (Str e)], peers)
           | Inr count \<Rightarrow>
               (case peer_id' of
                  None \<Rightarrow> ([send_error 400 (Msg ''Missing peer_id parameter'')], peers)
                | Some s \<Rightarrow>
                    if s = []
                    then ([send_error 400 (Msg ''Missing peer_id parameter'')], peers)
                    else
                      (let matching_peers =
                             (case map_of peers (KStr s) of
                                None \<Rightarrow> []
                              | Some info \<Rightarrow>
                                  if now - last_seen info < 300
                                  then [LookupEntry (peer_id info) (ip info) (port info)
                                          (is_public info)]
                                  else [])
                       in ([send_response 200
                              (LookupReply matching_peers (length matching_peers)),
                            log_or_fail log_raises
                              (LogLookup (take 16 s) (length matching_peers))],
                           peers)))))"

subsection \<open>Full listing: \<open>do_GET\<close> on \<open>/peers\<close>, lines 192-219\<close>

text \<open>
  The loop of lines 199-204 over the snapshot \<open>list(peers.items())\<close>. A stale entry is
  logged with \<open>peer_id[:16]\<close> and then deleted; the slice raises \<open>TypeError\<close> on a key
  that is not a string, and the log line may not print, both before the deletion. The
  result carries the exception if one was raised, the registry as the loop left it,
  and the lines logged so far.
\<close>

fun sweep ::
  "(log_line \<Rightarrow> exn option) \<Rightarrow> real \<Rightarrow> registry \<Rightarrow> registry \<Rightarrow> registry \<Rightarrow> event list
     \<Rightarrow> (exn + registry) \<times> registry \<times> event list" where
  "sweep log_raises now [] active peers logged = (Inr active, peers, logged)"
| "sweep log_raises now ((k, info) # items) active peers logged =
     (if now - last_seen info < 300
      then sweep log_raises now items (dict_setitem active k info) peers logged
      else
        (case k of
           KStr s \<Rightarrow>
             (let line = LogRemoving (take 16 s) (py_int (now - last_seen info))
              in case log_raises line of
                   Some e \<Rightarrow> (Inl e, peers, logged)
                 | None \<Rightarrow>
                     (case dict_delitem peers k of
                        Inl e \<Rightarrow> (Inl e, peers, logged @ [log_message line])
                      | Inr peers' \<Rightarrow>
                          sweep log_raises now items active peers'
                            (logged @ [log_message line])))
         | _ \<Rightarrow> (Inl TypeError, peers, logged)))"

definition do_GET_peers ::
  "(log_line \<Rightarrow> exn option) \<Rightarrow> real \<Rightarrow> registry \<Rightarrow> event list \<times> registry" where
  "do_GET_peers log_raises now peers =
     (case sweep log_raises now peers [] peers [] of
        (Inr active, peers', logged) \<Rightarrow>
          (logged @ [send_response 200 (PeersReply active (length active) now),
                     log_or_fail log_raises (LogReturned (length active))],
           peers')
      | (Inl e, peers', logged) \<Rightarrow> (logged @ [send_error 500 (Str e)], peers'))"

subsection \<open>Statistics: \<open>do_GET\<close> on \<open>/stats\<close>, lines 232-248\<close>

text \<open>
  \<open>server_start_time\<close> is the global set by \<open>run_server\<close>. The \<open>server_time\<close> field, a
  formatted wall-clock string, is left out.
\<close>

definition do_GET_stats :: "real \<Rightarrow> real \<Rightarrow> registry \<Rightarrow> event list \<times> registry" where
  "do_GET_stats now server_start_time peers =
     (let active = filter (\<lambda>info. now - last_seen info < 300) (map snd peers);
          public = filter (\<lambda>p. truthy (is_public p)) active
      in ([send_response 200
             (StatsReply
                \<lparr>total_peers = int (length peers),
                 active_peers = int (length active),
                 public_peers = int (length public),
                 private_peers = int (length active) - int (length public),
                 uptime_seconds = py_int (now - server_start_time)\<rparr>)],
          peers))"

subsection \<open>Vocabulary of the statements\<close>

text \<open>
  The staleness test as the three handlers write it, on one entry of the registry, and
  the line the listing logs for an entry it removes.
\<close>

definition fresh :: "real \<Rightarrow> pykey \<times> peer_info \<Rightarrow> bool" where
  "fresh now p = (now - last_seen (snd p) < 300)"

definition removal_line :: "real \<Rightarrow> pykey \<times> peer_info \<Rightarrow> log_line" where
  "removal_line now p =
     LogRemoving (take 16 (key_text (fst p))) (py_int (now - last_seen (snd p)))"

text \<open>
  The listing can log every entry it finds stale: each of them has a string key and a
  line that prints. (The closing line, a count between fixed words, always prints in
  Python; the model leaves that to \<open>log_raises\<close> as well.)
\<close>

definition removable :: "(log_line \<Rightarrow> exn option) \<Rightarrow> real \<Rightarrow> registry \<Rightarrow> bool" where
  "removable log_raises now peers =
     list_all (\<lambda>p. fresh now p \<or> (is_KStr (fst p) \<and> log_raises (removal_line now p) = None))
       peers"

text \<open>
  A stand-in for the builtin \<open>int\<close> in the examples: it reads a non-empty string of
  ASCII decimal digits, as the builtin does, and refuses every other string (the builtin
  also takes a sign, blanks around the number and underscores between digits).
\<close>

definition digit_of :: "char \<Rightarrow> int option" where
  "digit_of ch =
     (let n = (of_char ch :: nat) in if 48 \<le> n \<and> n \<le> 57 then Some (int n - 48) else None)"

fun decimal_from :: "int \<Rightarrow> string \<Rightarrow> int option" where
  "decimal_from acc [] = Some acc"
| "decimal_from acc (ch # s) =
     (case digit_of ch of None \<Rightarrow> None | Some v \<Rightarrow> decimal_from (10 * acc + v) s)"

definition decimal :: "string \<Rightarrow> int option" where
  "decimal s = (if s = [] then None else decimal_from 0 s)"

definition always_prints :: "log_line \<Rightarrow> exn option" where
  "always_prints line = None"

subsection \<open>Requests that only read\<close>

text \<open>
  \<open>HTTPServer\<close> handles one request at a time. A run of lookups and statistics
  requests, each with the time at which it is served, threads the registry through
  the two handlers.
\<close>

datatype read_request =
    LookupRequest real "(string \<times> string list) list"
  | StatsRequest real

fun serve_reads ::
  "(string \<Rightarrow> int option) \<Rightarrow> (log_line \<Rightarrow> exn option) \<Rightarrow> real \<Rightarrow> read_request list
     \<Rightarrow> registry \<Rightarrow> event list \<times> registry" where
  "serve_reads parse_int log_raises server_start_time [] peers = ([], peers)"
| "serve_reads parse_int log_raises server_start_time (LookupRequest now params # rs) peers =
     (case do_GET_lookup parse_int log_raises now params peers of
        (events, peers') \<Rightarrow>
          (case serve_reads parse_int log_raises server_start_time rs peers' of
             (later, peers'') \<Rightarrow> (events @ later, peers'')))"
| "serve_reads parse_int log_raises server_start_time (StatsRequest now # rs) peers =
     (case do_GET_stats now server_start_time peers of
        (events, peers') \<Rightarrow>
          (case serve_reads parse_int log_raises server_start_time rs peers' of
             (later, peers'') \<Rightarrow> (events @ later, peers'')))"

section \<open>Facts about the dictionary operations\<close>

lemma map_of_dict_setitem: "map_of (dict_setitem d k v) = (map_of d)(k \<mapsto> v)"
  by (induction d k v rule: dict_setitem.induct) auto

lemma length_dict_setitem:
  "length (dict_setitem d k v) = (if map_of d k = None then Suc (length d) else length d)"
  by (induction d k v rule: dict_setitem.induct) auto

lemma keys_dict_setitem: "fst ` set (dict_setitem d k v) = insert k (fst ` set d)"
  by (induction d k v rule: dict_setitem.induct) auto

lemma distinct_dict_setitem:
  "distinct (map fst d) \<Longrightarrow> distinct (map fst (dict_setitem d k v))"
proof (induction d k v rule: dict_setitem.induct)
  case (1 k v)
  then show ?case by simp
next
  case (2 k' v' d k v)
  have "fst ` set (dict_setitem d k v) = insert k (fst ` set d)"
    by (rule keys_dict_setitem)
  with 2 show ?case by auto
qed

lemma dict_setitem_fresh: "k \<notin> fst ` set d \<Longrightarrow> dict_setitem d k v = d @ [(k, v)]"
  by (induction d k v rule: dict_setitem.induct) auto

lemma dict_delitem_present:
  "k \<in> fst ` set d \<Longrightarrow> distinct (map fst d) \<Longrightarrow>
     dict_delitem d k = Inr (filter (\<lambda>p. fst p \<noteq> k) d)"
proof (induction d k rule: dict_delitem.induct)
  case (1 k)
  then show ?case by simp
next
  case (2 k' v' d k)
  show ?case
  proof (cases "k' = k")
    case True
    with 2 have "\<forall>p\<in>set d. fst p \<noteq> k" by auto
    then have "filter (\<lambda>p. fst p \<noteq> k) d = d" by (simp add: filter_id_conv)
    with True show ?thesis by simp
  next
    case False
    with 2 show ?thesis by auto
  qed
qed

lemma dict_delitem_absent: "k \<notin> fst ` set d \<Longrightarrow> dict_delitem d k = Inl KeyError"
  by (induction d k rule: dict_delitem.induct) auto

lemma dict_delitem_keeps:
  "dict_delitem d k = Inr d' \<Longrightarrow> p \<in> set d \<Longrightarrow> fst p \<noteq> k \<Longrightarrow> p \<in> set d'"
  by (induction d k arbitrary: d' rule: dict_delitem.induct)
     (auto split: if_splits sum.splits)

lemma dict_delitem_keys:
  "dict_delitem d k = Inr d' \<Longrightarrow> p \<in> set d' \<Longrightarrow> p \<in> set d"
  by (induction d k arbitrary: d' rule: dict_delitem.induct)
     (auto split: if_splits sum.splits)

lemma dict_delitem_distinct:
  "dict_delitem d k = Inr d' \<Longrightarrow> distinct (map fst d) \<Longrightarrow> distinct (map fst d')"
proof (induction d k arbitrary: d' rule: dict_delitem.induct)
  case (1 k)
  then show ?case by simp
next
  case (2 k' v' d k)
  show ?case
  proof (cases "k' = k")
    case True
    with 2 show ?thesis by auto
  next
    case False
    with "2.prems" obtain d'' where del: "dict_delitem d k = Inr d''" and d': "d' = (k', v') # d''"
      by (auto split: sum.splits)
    from dict_delitem_keys [OF del] "2.prems"(2) have "k' \<notin> fst ` set d''" by force
    moreover from "2.IH" [OF False del] "2.prems"(2) have "distinct (map fst d'')" by simp
    ultimately show ?thesis by (simp add: d')
  qed
qed

section \<open>The listing loop\<close>

text \<open>
  When every stale entry can be logged, the loop runs to its end: it returns the fresh
  entries in order, leaves exactly those in the registry and logs one line per entry
  removed. \<open>KeyError\<close> cannot happen, since the keys of the snapshot are distinct and
  still present when their turn comes.
\<close>

lemma sweep_completes:
  assumes "distinct (map fst items)"
    and "removable log_raises now items"
    and "\<forall>p\<in>set items. \<not> fresh now p \<longrightarrow> fst p \<in> fst ` set cur"
    and "distinct (map fst cur)"
    and "fst ` set active \<inter> fst ` set items = {}"
  shows "sweep log_raises now items active cur logged =
           (Inr (active @ filter (fresh now) items),
            filter (\<lambda>p. fst p \<notin> fst ` {q \<in> set items. \<not> fresh now q}) cur,
            logged @ map (\<lambda>p. log_message (removal_line now p)) (filter (\<lambda>p. \<not> fresh now p) items))"
  using assms
proof (induction items arbitrary: active cur logged)
  case Nil
  then show ?case by simp
next
  case (Cons p items)
  obtain k info where p: "p = (k, info)" by (cases p)
  from Cons.prems have dist: "distinct (map fst items)" and knew: "k \<notin> fst ` set items"
    by (auto simp: p)
  from Cons.prems have strs: "removable log_raises now items"
    by (simp add: removable_def)
  show ?case
  proof (cases "fresh now p")
    case True
    from Cons.prems have "k \<notin> fst ` set active" by (auto simp: p)
    then have app: "dict_setitem active k info = active @ [(k, info)]"
      by (rule dict_setitem_fresh)
    have disj: "fst ` set (active @ [(k, info)]) \<inter> fst ` set items = {}"
      using Cons.prems(5) knew by (auto simp: p)
    have pres: "\<forall>q\<in>set items. \<not> fresh now q \<longrightarrow> fst q \<in> fst ` set cur"
      using Cons.prems(3) by simp
    have same: "{q \<in> set (p # items). \<not> fresh now q} = {q \<in> set items. \<not> fresh now q}"
      using True by auto
    have f1: "filter (fresh now) (p # items) = p # filter (fresh now) items"
      and f2: "filter (\<lambda>p. \<not> fresh now p) (p # items) = filter (\<lambda>p. \<not> fresh now p) items"
      using True by simp_all
    have step: "sweep log_raises now (p # items) active cur logged
            = sweep log_raises now items (active @ [(k, info)]) cur logged"
      using True by (simp add: p fresh_def app)
    have ih: "sweep log_raises now items (active @ [(k, info)]) cur logged
          = (Inr ((active @ [(k, info)]) @ filter (fresh now) items),
            filter (\<lambda>p. fst p \<notin> fst ` {q \<in> set items. \<not> fresh now q}) cur,
            logged @ map (\<lambda>p. log_message (removal_line now p)) (filter (\<lambda>p. \<not> fresh now p) items))"
      by (rule Cons.IH [OF dist strs pres Cons.prems(4) disj])
    show ?thesis unfolding step ih f1 f2 same by (simp add: p)
  next
    case False
    with Cons.prems(2) obtain s where k: "k = KStr s"
      by (cases k) (auto simp: removable_def p)
    from False Cons.prems(2) have pr: "log_raises (removal_line now p) = None"
      by (simp add: removable_def)
    from False Cons.prems(3) have "k \<in> fst ` set cur" by (simp add: p)
    then have del: "dict_delitem cur k = Inr (filter (\<lambda>q. fst q \<noteq> k) cur)"
      using Cons.prems(4) by (rule dict_delitem_present)
    let ?cur = "filter (\<lambda>q. fst q \<noteq> k) cur"
    have pres: "\<forall>q\<in>set items. \<not> fresh now q \<longrightarrow> fst q \<in> fst ` set ?cur"
    proof (intro ballI impI)
      fix q assume q: "q \<in> set items" "\<not> fresh now q"
      with Cons.prems(3) have "fst q \<in> fst ` set cur" by simp
      moreover from q knew have "fst q \<noteq> k" by force
      ultimately show "fst q \<in> fst ` set ?cur" by auto
    qed
    have dcur: "distinct (map fst ?cur)"
      using Cons.prems(4) by (simp add: distinct_map_filter)
    have disj: "fst ` set active \<inter> fst ` set items = {}"
      using Cons.prems(5) by auto
    have more: "fst ` {q \<in> set (p # items). \<not> fresh now q}
                  = insert k (fst ` {q \<in> set items. \<not> fresh now q})"
      using False by (force simp: p)
    have f1: "filter (fresh now) (p # items) = filter (fresh now) items"
      and f2: "filter (\<lambda>p. \<not> fresh now p) (p # items) = p # filter (\<lambda>p. \<not> fresh now p) items"
      using False by simp_all
    have step: "sweep log_raises now (p # items) active cur logged
            = sweep log_raises now items active ?cur (logged @ [log_message (removal_line now p)])"
      using False pr by (simp add: p k fresh_def del [unfolded k] removal_line_def)
    have ih: "sweep log_raises now items active ?cur (logged @ [log_message (removal_line now p)])
         = (Inr (active @ filter (fresh now) items),
            filter (\<lambda>p. fst p \<notin> fst ` {q \<in> set items. \<not> fresh now q}) ?cur,
            (logged @ [log_message (removal_line now p)]) @ map (\<lambda>p. log_message (removal_line now p)) (filter (\<lambda>p. \<not> fresh now p) items))"
      by (rule Cons.IH [OF dist strs pres dcur disj])
    have cur: "filter (\<lambda>p. fst p \<notin> fst ` {q \<in> set items. \<not> fresh now q}) ?cur
                 = filter (\<lambda>q. fst q \<notin> fst ` {q \<in> set (p # items). \<not> fresh now q}) cur"
      unfolding more by (simp add: conj_commute)
    show ?thesis unfolding step ih f1 f2 cur by simp
  qed
qed

lemma filter_stale_keys:
  assumes "distinct (map fst peers)"
  shows "filter (\<lambda>p. fst p \<notin> fst ` {q \<in> set peers. \<not> fresh now q}) peers
           = filter (fresh now) peers"
proof (rule filter_cong [OF refl])
  fix p assume p: "p \<in> set peers"
  have "fst p \<in> fst ` {q \<in> set peers. \<not> fresh now q} \<longleftrightarrow> \<not> fresh now p"
  proof
    assume "fst p \<in> fst ` {q \<in> set peers. \<not> fresh now q}"
    then obtain q where q: "q \<in> set peers" "\<not> fresh now q" "fst q = fst p" by auto
    with assms p have "q = p" by (metis eq_key_imp_eq_value prod.collapse)
    with q show "\<not> fresh now p" by simp
  next
    assume "\<not> fresh now p"
    with p show "fst p \<in> fst ` {q \<in> set peers. \<not> fresh now q}" by auto
  qed
  then show "(fst p \<notin> fst ` {q \<in> set peers. \<not> fresh now q}) = fresh now p" by simp
qed

lemma do_GET_peers_completes:
  assumes "wf_registry peers" and "removable log_raises now peers"
  shows "do_GET_peers log_raises now peers =
           (map (\<lambda>p. log_message (removal_line now p)) (filter (\<lambda>p. \<not> fresh now p) peers)
              @ [send_response 200
                   (PeersReply (filter (fresh now) peers) (length (filter (fresh now) peers)) now),
                 log_or_fail log_raises (LogReturned (length (filter (fresh now) peers)))],
            filter (fresh now) peers)"
proof -
  have d: "distinct (map fst peers)" using assms(1) by (simp add: wf_registry_def)
  have "sweep log_raises now peers [] peers [] =
           (Inr ([] @ filter (fresh now) peers),
            filter (\<lambda>p. fst p \<notin> fst ` {q \<in> set peers. \<not> fresh now q}) peers,
            [] @ map (\<lambda>p. log_message (removal_line now p)) (filter (\<lambda>p. \<not> fresh now p) peers))"
    by (rule sweep_completes [OF d assms(2) _ d]) auto
  then show ?thesis
    by (simp add: do_GET_peers_def filter_stale_keys [OF d])
qed

text \<open>
  When a stale entry cannot be logged, because its key is not a string or its line does
  not print, the loop raises at that entry or before it, and the entry is still in the
  registry afterwards: the listing answers 500 and the entry is never removed.
\<close>

lemma sweep_stops:
  assumes "p \<in> set items" and "\<not> fresh now p"
    and "\<not> is_KStr (fst p) \<or> log_raises (removal_line now p) \<noteq> None"
    and "distinct (map fst items)" and "p \<in> set cur"
  shows "\<exists>e cur' logged'.
           sweep log_raises now items active cur logged = (Inl e, cur', logged')
           \<and> p \<in> set cur'"
  using assms
proof (induction items arbitrary: active cur logged)
  case Nil
  then show ?case by simp
next
  case (Cons q items)
  obtain k info where q: "q = (k, info)" by (cases q)
  show ?case
  proof (cases "q = p")
    case True
    then have pq: "p = (k, info)" by (simp add: q)
    with Cons.prems(2) have stale: "\<not> now - last_seen info < 300"
      by (simp add: fresh_def)
    show ?thesis
    proof (cases k)
      case (KStr s)
      with Cons.prems(3) pq obtain e where
        "log_raises (LogRemoving (take 16 s) (py_int (now - last_seen info))) = Some e"
        by (auto simp: removal_line_def)
      with stale KStr Cons.prems(5) show ?thesis by (simp add: q)
    qed (use stale Cons.prems(5) in \<open>simp_all add: q\<close>)
  next
    case False
    with Cons.prems have p: "p \<in> set items" and d: "distinct (map fst items)"
      and ne: "fst p \<noteq> k"
      by (auto simp: q)
    note ih = Cons.IH [OF p Cons.prems(2) Cons.prems(3) d]
    show ?thesis
    proof (cases "now - last_seen info < 300")
      case True
      with ih [OF Cons.prems(5)] show ?thesis by (simp add: q)
    next
      case stale: False
      show ?thesis
      proof (cases k)
        case (KStr s)
        let ?line = "LogRemoving (take 16 s) (py_int (now - last_seen info))"
        show ?thesis
        proof (cases "log_raises ?line")
          case None
          show ?thesis
          proof (cases "dict_delitem cur k")
            case (Inl e)
            with stale KStr None Cons.prems(5) show ?thesis by (simp add: q)
          next
            case (Inr cur')
            from dict_delitem_keeps [OF Inr Cons.prems(5) ne] have "p \<in> set cur'" .
            from ih [OF this] stale KStr None Inr show ?thesis by (simp add: q)
          qed
        next
          case (Some e)
          with stale KStr Cons.prems(5) show ?thesis by (simp add: q)
        qed
      qed (use stale Cons.prems(5) in \<open>simp_all add: q\<close>)
    qed
  qed
qed

lemma do_GET_peers_stops:
  assumes "wf_registry peers" and "p \<in> set peers" and "\<not> fresh now p"
    and "\<not> is_KStr (fst p) \<or> log_raises (removal_line now p) \<noteq> None"
  shows "\<exists>logged e peers'.
           do_GET_peers log_raises now peers = (logged @ [send_error 500 (Str e)], peers')
           \<and> p \<in> set peers'"
proof -
  have d: "distinct (map fst peers)" using assms(1) by (simp add: wf_registry_def)
  from sweep_stops [where log_raises = log_raises and active = "[]" and logged = "[]",
                    OF assms(2) assms(3) assms(4) d assms(2)]
  obtain e cur' logged' where
    "sweep log_raises now peers [] peers [] = (Inl e, cur', logged')" "p \<in> set cur'"
    by blast
  then show ?thesis by (simp add: do_GET_peers_def)
qed

text \<open>The loop only deletes: the registry it leaves has distinct keys again.\<close>

lemma sweep_distinct:
  "distinct (map fst cur) \<Longrightarrow>
     distinct (map fst (fst (snd (sweep log_raises now items active cur logged))))"
proof (induction items arbitrary: active cur logged)
  case Nil
  then show ?case by simp
next
  case (Cons q items)
  obtain k info where q: "q = (k, info)" by (cases q)
  show ?case
  proof (cases "now - last_seen info < 300")
    case True
    with Cons show ?thesis by (simp add: q)
  next
    case False
    show ?thesis
    proof (cases k)
      case (KStr s)
      show ?thesis
      proof (cases "dict_delitem cur k")
        case (Inl e)
        with False KStr Cons.prems show ?thesis
          by (simp add: q Let_def split: option.split)
      next
        case (Inr cur')
        from dict_delitem_distinct [OF Inr Cons.prems] have "distinct (map fst cur')" .
        from Cons.IH [OF this] False KStr Inr Cons.prems show ?thesis
          by (simp add: q Let_def split: option.split)
      qed
    qed (use False Cons.prems in \<open>simp_all add: q\<close>)
  qed
qed

lemma wf_registry_do_GET_peers:
  "wf_registry peers \<Longrightarrow> wf_registry (snd (do_GET_peers log_raises now peers))"
  using sweep_distinct [of peers log_raises now peers "[]" "[]"]
  by (auto simp: do_GET_peers_def wf_registry_def split: prod.splits sum.splits)

section \<open>Facts about the handlers\<close>

lemma register_rejects:
  assumes "\<not> truthy (dict_get d ''peer_id'')
             \<or> \<not> truthy (py_or (dict_get d ''ip'') (dict_get d ''ip_address''))"
  shows "register log_raises now (JObject d) peers
           = ([send_error 400 (Msg ''Missing peer_id or ip'')], peers)"
  using assms by (auto simp: register_def Let_def)

lemma register_accepts:
  assumes "dict_get d ''peer_id'' = JString s" and "s \<noteq> []"
    and "truthy (py_or (dict_get d ''ip'') (dict_get d ''ip_address''))"
  shows "register log_raises now (JObject d) peers =
           ([send_response 201 (RegisterReply (JString s)),
             log_or_fail log_raises
               (LogRegister (if map_of peers (KStr s) = None then Registered else Updated)
                  (take 16 s)
                  (py_or (dict_get d ''ip'') (dict_get d ''ip_address''))
                  (dict_get_default d ''port'' (JInt 8443))
                  (dict_get_default d ''is_public'' (JBool False)))],
            dict_setitem peers (KStr s)
              \<lparr>peer_id = JString s,
               ip = py_or (dict_get d ''ip'') (dict_get d ''ip_address''),
               port = dict_get_default d ''port'' (JInt 8443),
               is_public = dict_get_default d ''is_public'' (JBool False),
               last_seen = now,
               registered_at =
                 (case map_of peers (KStr s) of Some old \<Rightarrow> registered_at old | None \<Rightarrow> now)\<rparr>)"
  using assms by (simp add: register_def Let_def)

lemma register_success_inputs:
  assumes "register log_raises now data peers
             = ([send_response 201 reply, log_message line], peers')"
  shows "\<exists>d s. data = JObject d \<and> dict_get d ''peer_id'' = JString s \<and> s \<noteq> []
           \<and> truthy (py_or (dict_get d ''ip'') (dict_get d ''ip_address''))"
proof (cases data)
  case (JObject d)
  show ?thesis
  proof (cases "dict_get d ''peer_id''")
    case (JString s)
    with assms JObject show ?thesis
      by (auto simp: register_def Let_def split: if_splits)
  qed (use assms JObject in \<open>auto simp: register_def Let_def split: if_splits option.splits\<close>)
qed (use assms in \<open>auto simp: register_def\<close>)

lemma register_stores_non_string:
  assumes "truthy pid" and "py_hash pid = Some k" and "\<not> is_KStr k"
    and "dict_get d ''peer_id'' = pid"
    and "truthy (py_or (dict_get d ''ip'') (dict_get d ''ip_address''))"
  shows "\<exists>info. register log_raises now (JObject d) peers =
           ([send_response 201 (RegisterReply pid), send_error 500 (Str TypeError)],
            dict_setitem peers k info) \<and> last_seen info = now"
  using assms by (cases pid) (auto simp: register_def Let_def)

lemma wf_registry_register:
  "wf_registry peers \<Longrightarrow> wf_registry (snd (register log_raises now data peers))"
  by (auto simp: register_def Let_def wf_registry_def distinct_dict_setitem
           split: json.splits option.splits)

lemma do_GET_lookup_frame: "snd (do_GET_lookup parse_int log_raises now params peers) = peers"
  by (auto simp: do_GET_lookup_def Let_def split: option.splits list.splits sum.splits)

lemma do_GET_stats_frame: "snd (do_GET_stats now server_start_time peers) = peers"
  by (simp add: do_GET_stats_def Let_def)

lemma do_GET_lookup_answers:
  assumes "map_of params ''peer_id'' = Some (s # vs)" and "s \<noteq> []"
    and "map_of params ''count'' = None
           \<or> (\<exists>c cs n. map_of params ''count'' = Some (c # cs) \<and> parse_int c = Some n)"
  shows "do_GET_lookup parse_int log_raises now params peers =
           (let found = (case map_of peers (KStr s) of
                           None \<Rightarrow> []
                         | Some info \<Rightarrow>
                             if now - last_seen info < 300
                             then [LookupEntry (peer_id info) (ip info) (port info) (is_public info)]
                             else [])
            in ([send_response 200 (LookupReply found (length found)),
                 log_or_fail log_raises (LogLookup (take 16 s) (length found))], peers))"
  using assms by (auto simp: do_GET_lookup_def Let_def)

lemma wf_registry_map_of:
  "wf_registry peers \<Longrightarrow> (k, info) \<in> set peers \<Longrightarrow> map_of peers k = Some info"
  by (simp add: wf_registry_def)

lemma wf_registry_filter: "wf_registry peers \<Longrightarrow> wf_registry (filter P peers)"
  by (simp add: wf_registry_def distinct_map_filter)

lemma decimal_examples:
  "decimal ''ten'' = None" "decimal ''10'' = Some 10" "decimal ''3'' = Some 3"
  "decimal ''25'' = Some 25" "decimal ''abc'' = None"
  by (simp_all add: decimal_def digit_of_def)

lemma py_int_bounds:
  assumes "0 \<le> x"
  shows "real_of_int (py_int x) \<le> x \<and> x < real_of_int (py_int x) + 1"
  using assms by (simp add: py_int_def)

lemma serve_reads_frame:
  "snd (serve_reads parse_int log_raises server_start_time rs peers) = peers"
proof (induction rs arbitrary: peers)
  case Nil
  then show ?case by simp
next
  case (Cons r rs)
  show ?case
  proof (cases r)
    case (LookupRequest now params)
    have "snd (do_GET_lookup parse_int log_raises now params peers) = peers"
      by (rule do_GET_lookup_frame)
    with Cons.IH [of peers] LookupRequest show ?thesis
      by (auto split: prod.splits)
  next
    case (StatsRequest now)
    have "snd (do_GET_stats now server_start_time peers) = peers"
      by (rule do_GET_stats_frame)
    with Cons.IH [of peers] StatsRequest show ?thesis
      by (auto split: prod.splits)
  qed
qed

text \<open>
  A numeric \<open>peer_id\<close> is accepted and stored (the 500 comes after the record is
  written), so registries with such keys are reachable.
\<close>

lemma numeric_peer_id_is_stored:
  "register always_prints 0 (JObject [(''peer_id'', JInt 5), (''ip'', JString ''10.0.0.5'')]) []
     = ([send_response 201 (RegisterReply (JInt 5)), send_error 500 (Str TypeError)],
        [(KNum 5,
          \<lparr>peer_id = JInt 5, ip = JString ''10.0.0.5'', port = JInt 8443,
           is_public = JBool False, last_seen = 0, registered_at = 0\<rparr>)])"
  by (simp add: register_def dict_get_def dict_get_default_def py_or_def Let_def)

lemma string_peer_id_is_stored_next:
  "register always_prints 0 (JObject [(''peer_id'', JString ''abc''), (''ip'', JString ''10.0.0.1'')])
       [(KNum 5,
          \<lparr>peer_id = JInt 5, ip = JString ''10.0.0.5'', port = JInt 8443,
           is_public = JBool False, last_seen = 0, registered_at = 0\<rparr>)]
     = ([send_response 201 (RegisterReply (JString ''abc'')),
         log_message (LogRegister Registered ''abc'' (JString ''10.0.0.1'') (JInt 8443)
                        (JBool False))],
        [(KNum 5,
          \<lparr>peer_id = JInt 5, ip = JString ''10.0.0.5'', port = JInt 8443,
           is_public = JBool False, last_seen = 0, registered_at = 0\<rparr>),
         (KStr ''abc'',
          \<lparr>peer_id = JString ''abc'', ip = JString ''10.0.0.1'', port = JInt 8443,
           is_public = JBool False, last_seen = 0, registered_at = 0\<rparr>)])"
  by (simp add: register_def dict_get_def dict_get_default_def py_or_def Let_def
                log_or_fail_def always_prints_def)

text \<open>
  The three handlers that look at staleness use the same strict test. For an entry
  of the registry stored under a string identifier: the lookup returns it exactly when
  \<open>now - last_seen < 300\<close>; a listing that runs to its end lists it and keeps it in the
  registry exactly then; and the statistics count as active exactly the entries that
  pass the test. So an entry last seen at \<open>now - 299\<close> is found, listed and kept, and
  one last seen at \<open>now - 300\<close> or before is not found, not listed and removed.
\<close>

lemma staleness_test_when_listing_completes:
  assumes "wf_registry peers" and "removable log_raises now peers"
    and "(KStr s, info) \<in> set peers" and "s \<noteq> []"
  shows "(\<exists>found rest.
            fst (do_GET_lookup parse_int log_raises now [(''peer_id'', [s])] peers)
              = send_response 200 (LookupReply found (length found)) # rest
            \<and> (found \<noteq> [] \<longleftrightarrow> now - last_seen info < 300)
            \<and> (last_seen info = now - 299 \<longrightarrow> found \<noteq> [])
            \<and> (last_seen info \<le> now - 300 \<longrightarrow> found = []))
       \<and> (\<exists>removed listed rest kept.
            do_GET_peers log_raises now peers
              = (removed @ send_response 200 (PeersReply listed (length listed) now) # rest, kept)
            \<and> ((KStr s, info) \<in> set listed \<longleftrightarrow> now - last_seen info < 300)
            \<and> ((KStr s, info) \<in> set kept \<longleftrightarrow> now - last_seen info < 300)
            \<and> (last_seen info = now - 299 \<longrightarrow>
                  (KStr s, info) \<in> set listed \<and> (KStr s, info) \<in> set kept)
            \<and> (last_seen info \<le> now - 300 \<longrightarrow>
                  (KStr s, info) \<notin> set listed \<and> (KStr s, info) \<notin> set kept))
       \<and> (\<exists>st.
            fst (do_GET_stats now server_start_time peers) = [send_response 200 (StatsReply st)]
            \<and> active_peers st = int (card {p \<in> set peers. now - last_seen (snd p) < 300}))"
proof -
  let ?entry = "LookupEntry (peer_id info) (ip info) (port info) (is_public info)"
  let ?found = "if now - last_seen info < 300 then [?entry] else []"
  have stored: "map_of peers (KStr s) = Some info"
    using assms(1) assms(3) by (rule wf_registry_map_of)
  have "do_GET_lookup parse_int log_raises now [(''peer_id'', [s])] peers
          = ([send_response 200 (LookupReply ?found (length ?found)),
              log_or_fail log_raises (LogLookup (take 16 s) (length ?found))], peers)"
    using do_GET_lookup_answers [of "[(''peer_id'', [s])]" s "[]" parse_int log_raises now peers]
      assms(4) stored
    by (simp add: Let_def)
  then have lookup: "\<exists>found rest.
            fst (do_GET_lookup parse_int log_raises now [(''peer_id'', [s])] peers)
              = send_response 200 (LookupReply found (length found)) # rest
            \<and> (found \<noteq> [] \<longleftrightarrow> now - last_seen info < 300)
            \<and> (last_seen info = now - 299 \<longrightarrow> found \<noteq> [])
            \<and> (last_seen info \<le> now - 300 \<longrightarrow> found = [])"
    by (intro exI [of _ ?found]) auto
  let ?listed = "filter (fresh now) peers"
  have member: "(KStr s, info) \<in> set ?listed \<longleftrightarrow> now - last_seen info < 300"
    using assms(3) by (simp add: fresh_def)
  have listing: "\<exists>removed listed rest kept.
            do_GET_peers log_raises now peers
              = (removed @ send_response 200 (PeersReply listed (length listed) now) # rest, kept)
            \<and> ((KStr s, info) \<in> set listed \<longleftrightarrow> now - last_seen info < 300)
            \<and> ((KStr s, info) \<in> set kept \<longleftrightarrow> now - last_seen info < 300)
            \<and> (last_seen info = now - 299 \<longrightarrow>
                  (KStr s, info) \<in> set listed \<and> (KStr s, info) \<in> set kept)
            \<and> (last_seen info \<le> now - 300 \<longrightarrow>
                  (KStr s, info) \<notin> set listed \<and> (KStr s, info) \<notin> set kept)"
    apply (rule exI [of _ "map (\<lambda>p. log_message (removal_line now p))
                               (filter (\<lambda>p. \<not> fresh now p) peers)"])
    apply (rule exI [of _ ?listed])
    apply (rule exI [of _ "[log_or_fail log_raises (LogReturned (length ?listed))]"])
    apply (rule exI [of _ ?listed])
    using do_GET_peers_completes [OF assms(1) assms(2)] member by auto
  have "distinct peers"
    using assms(1) by (auto simp: wf_registry_def distinct_map)
  then have "card (set (filter (\<lambda>p. now - last_seen (snd p) < 300) peers))
               = length (filter (\<lambda>p. now - last_seen (snd p) < 300) peers)"
    by (intro distinct_card distinct_filter)
  then have count: "int (length (filter (\<lambda>info. now - last_seen info < 300) (map snd peers)))
               = int (card {p \<in> set peers. now - last_seen (snd p) < 300})"
    by (simp add: filter_map o_def)
  have stats: "\<exists>st.
            fst (do_GET_stats now server_start_time peers) = [send_response 200 (StatsReply st)]
            \<and> active_peers st = int (card {p \<in> set peers. now - last_seen (snd p) < 300})"
    using count by (simp add: do_GET_stats_def Let_def)
  from lookup listing stats show ?thesis by (intro conjI)
qed

lemma staleness_test_when_listing_completes_example:
  "wf_registry
     [(KStr ''a'', \<lparr>peer_id = JString ''a'', ip = JString ''10.0.0.1'', port = JInt 8443,
                    is_public = JBool True, last_seen = 701, registered_at = 10\<rparr>),
      (KStr ''b'', \<lparr>peer_id = JString ''b'', ip = JString ''10.0.0.2'', port = JInt 8443,
                    is_public = JBool False, last_seen = 700, registered_at = 20\<rparr>)]
   \<and> removable always_prints 1000
     [(KStr ''a'', \<lparr>peer_id = JString ''a'', ip = JString ''10.0.0.1'', port = JInt 8443,
                    is_public = JBool True, last_seen = 701, registered_at = 10\<rparr>),
      (KStr ''b'', \<lparr>peer_id = JString ''b'', ip = JString ''10.0.0.2'', port = JInt 8443,
                    is_public = JBool False, last_seen = 700, registered_at = 20\<rparr>)]
   \<and> do_GET_peers always_prints 1000
     [(KStr ''a'', \<lparr>peer_id = JString ''a'', ip = JString ''10.0.0.1'', port = JInt 8443,
                    is_public = JBool True, last_seen = 701, registered_at = 10\<rparr>),
      (KStr ''b'', \<lparr>peer_id = JString ''b'', ip = JString ''10.0.0.2'', port = JInt 8443,
                    is_public = JBool False, last_seen = 700, registered_at = 20\<rparr>)]
     = ([log_message (LogRemoving ''b'' 300),
         send_response 200
           (PeersReply
              [(KStr ''a'', \<lparr>peer_id = JString ''a'', ip = JString ''10.0.0.1'', port = JInt 8443,
                             is_public = JBool True, last_seen = 701, registered_at = 10\<rparr>)]
              1 1000),
         log_message (LogReturned 1)],
        [(KStr ''a'', \<lparr>peer_id = JString ''a'', ip = JString ''10.0.0.1'', port = JInt 8443,
                       is_public = JBool True, last_seen = 701, registered_at = 10\<rparr>)])
   \<and> (\<exists>st. fst (do_GET_stats 1000 0
         [(KStr ''a'', \<lparr>peer_id = JString ''a'', ip = JString ''10.0.0.1'', port = JInt 8443,
                        is_public = JBool True, last_seen = 701, registered_at = 10\<rparr>),
          (KStr ''b'', \<lparr>peer_id = JString ''b'', ip = JString ''10.0.0.2'', port = JInt 8443,
                        is_public = JBool False, last_seen = 700, registered_at = 20\<rparr>)])
          = [send_response 200 (StatsReply st)] \<and> active_peers st = 1)"
proof -
  let ?a = "(KStr ''a'', \<lparr>peer_id = JString ''a'', ip = JString ''10.0.0.1'', port = JInt 8443,
                    is_public = JBool True, last_seen = 701, registered_at = 10\<rparr>)"
  let ?b = "(KStr ''b'', \<lparr>peer_id = JString ''b'', ip = JString ''10.0.0.2'', port = JInt 8443,
                    is_public = JBool False, last_seen = 700, registered_at = 20\<rparr>)"
  have h1: "wf_registry [?a, ?b]"
    by (simp add: wf_registry_def)
  have h2: "removable always_prints 1000 [?a, ?b]"
    by (simp add: removable_def fresh_def always_prints_def)
  have h3: "(KStr ''b'', snd ?b) \<in> set [?a, ?b]"
    by simp
  have h4: "''b'' \<noteq> []" by simp
  have run: "do_GET_peers always_prints 1000 [?a, ?b]
     = ([log_message (LogRemoving ''b'' 300),
         send_response 200 (PeersReply [?a] 1 1000), log_message (LogReturned 1)], [?a])"
    by (simp add: do_GET_peers_def always_prints_def log_or_fail_def py_int_def)
  have stats: "\<exists>st. fst (do_GET_stats 1000 0 [?a, ?b]) = [send_response 200 (StatsReply st)]
                 \<and> active_peers st = 1"
    by (simp add: do_GET_stats_def)
  from staleness_test_when_listing_completes
         [where parse_int = decimal and log_raises = always_prints and server_start_time = 0,
          OF h1 h2 h3 h4]
  show ?thesis using h1 h2 run stats by (intro conjI)
qed

text \<open>
  A registration stores whatever JSON value it is given as \<open>is_public\<close>: here the string
  \<open>"false"\<close>.
\<close>

lemma string_is_public_is_stored:
  "register always_prints 10
     (JObject [(''peer_id'', JString ''a''), (''ip'', JString ''10.0.0.1''),
               (''is_public'', JString ''false'')]) []
   = ([send_response 201 (RegisterReply (JString ''a'')),
       log_message (LogRegister Registered ''a'' (JString ''10.0.0.1'') (JInt 8443)
                      (JString ''false''))],
      [(KStr ''a'',
        \<lparr>peer_id = JString ''a'', ip = JString ''10.0.0.1'', port = JInt 8443,
         is_public = JString ''false'', last_seen = 10, registered_at = 10\<rparr>)])"
  by (simp add: register_def dict_get_def dict_get_default_def py_or_def Let_def
                log_or_fail_def always_prints_def)

text \<open>
  Three registrations, of the numeric identifier 5 at time 0, of \<open>b\<close> at 700 and of \<open>a\<close>
  at 701, leave a registry in which, at time 1000, \<open>a\<close> was seen 299 seconds ago and
  \<open>b\<close> 300 seconds ago.
\<close>

lemma threshold_registry_is_reachable:
  "snd (register always_prints 701
          (JObject [(''peer_id'', JString ''a''), (''ip'', JString ''10.0.0.1'')])
          (snd (register always_prints 700
                  (JObject [(''peer_id'', JString ''b''), (''ip'', JString ''10.0.0.2'')])
                  (snd (register always_prints 0
                          (JObject [(''peer_id'', JInt 5), (''ip'', JString ''10.0.0.5'')])
                          [])))))
   = [(KNum 5,
       \<lparr>peer_id = JInt 5, ip = JString ''10.0.0.5'', port = JInt 8443,
        is_public = JBool False, last_seen = 0, registered_at = 0\<rparr>),
      (KStr ''b'',
       \<lparr>peer_id = JString ''b'', ip = JString ''10.0.0.2'', port = JInt 8443,
        is_public = JBool False, last_seen = 700, registered_at = 700\<rparr>),
      (KStr ''a'',
       \<lparr>peer_id = JString ''a'', ip = JString ''10.0.0.1'', port = JInt 8443,
        is_public = JBool False, last_seen = 701, registered_at = 701\<rparr>)]"
  by (simp add: register_def dict_get_def dict_get_default_def py_or_def Let_def
                log_or_fail_def always_prints_def)

section \<open>The claims\<close>

text \<open>
  C1. A registration whose body carries a non-empty string \<open>peer_id\<close> and an address
  is accepted: the 201 is written, the registry holds under that identifier a record
  with the request's \<open>ip\<close> (or \<open>ip_address\<close>), \<open>port\<close> and \<open>is_public\<close> and with
  \<open>last_seen = now\<close>, and the line handed to the log names the action. If the identifier
  was present, \<open>registered_at\<close> is the one stored before, the action is \<open>Updated\<close>
  (created = false) and the registry has as many entries as before; if it was not,
  \<open>registered_at = now\<close>, the action is \<open>Registered\<close> (created = true) and there is one
  entry more. No other identifier's record changes. The action is reported through
  the log line only (line 71), so it is seen when that line prints.
\<close>

theorem register_updates_in_place_or_inserts:
  assumes "dict_get d ''peer_id'' = JString s" and "s \<noteq> []"
    and "truthy (py_or (dict_get d ''ip'') (dict_get d ''ip_address''))"
  shows "\<exists>act info peers'.
           register log_raises now (JObject d) peers
             = ([send_response 201 (RegisterReply (JString s)),
                 log_or_fail log_raises
                   (LogRegister act (take 16 s) (ip info) (port info) (is_public info))],
                peers')
         \<and> (log_raises (LogRegister act (take 16 s) (ip info) (port info) (is_public info))
                = None
              \<longrightarrow> fst (register log_raises now (JObject d) peers)
                    = [send_response 201 (RegisterReply (JString s)),
                       log_message
                         (LogRegister act (take 16 s) (ip info) (port info) (is_public info))])
         \<and> map_of peers' (KStr s) = Some info
         \<and> peer_id info = JString s
         \<and> ip info = py_or (dict_get d ''ip'') (dict_get d ''ip_address'')
         \<and> port info = dict_get_default d ''port'' (JInt 8443)
         \<and> is_public info = dict_get_default d ''is_public'' (JBool False)
         \<and> last_seen info = now
         \<and> (case map_of peers (KStr s) of
               Some old \<Rightarrow>
                 act = Updated \<and> registered_at info = registered_at old
                 \<and> length peers' = length peers
             | None \<Rightarrow>
                 act = Registered \<and> registered_at info = now
                 \<and> length peers' = Suc (length peers))
         \<and> (\<forall>k. k \<noteq> KStr s \<longrightarrow> map_of peers' k = map_of peers k)"
proof -
  let ?act = "if map_of peers (KStr s) = None then Registered else Updated"
  let ?info = "\<lparr>peer_id = JString s,
               ip = py_or (dict_get d ''ip'') (dict_get d ''ip_address''),
               port = dict_get_default d ''port'' (JInt 8443),
               is_public = dict_get_default d ''is_public'' (JBool False),
               last_seen = now,
               registered_at =
                 (case map_of peers (KStr s) of Some old \<Rightarrow> registered_at old | None \<Rightarrow> now)\<rparr>"
  let ?peers' = "dict_setitem peers (KStr s) ?info"
  let ?line = "LogRegister ?act (take 16 s) (ip ?info) (port ?info) (is_public ?info)"
  have run: "register log_raises now (JObject d) peers
               = ([send_response 201 (RegisterReply (JString s)),
                   log_or_fail log_raises ?line], ?peers')"
    using register_accepts [OF assms, of log_raises now peers] by simp
  have printed: "log_raises ?line = None \<longrightarrow>
                   fst (register log_raises now (JObject d) peers)
                     = [send_response 201 (RegisterReply (JString s)), log_message ?line]"
    unfolding run by (simp add: log_or_fail_def)
  have there: "map_of ?peers' (KStr s) = Some ?info"
    and others: "\<forall>k. k \<noteq> KStr s \<longrightarrow> map_of ?peers' k = map_of peers k"
    by (simp_all add: map_of_dict_setitem)
  have cases: "case map_of peers (KStr s) of
               Some old \<Rightarrow>
                 ?act = Updated \<and> registered_at ?info = registered_at old
                 \<and> length ?peers' = length peers
             | None \<Rightarrow>
                 ?act = Registered \<and> registered_at ?info = now
                 \<and> length ?peers' = Suc (length peers)"
    by (simp add: length_dict_setitem split: option.split)
  show ?thesis
    apply (rule exI [of _ ?act], rule exI [of _ ?info], rule exI [of _ ?peers'])
    using run printed there others cases by simp
qed

theorem register_updates_in_place_or_inserts_witness:
  "dict_get [(''peer_id'', JString ''abc''), (''ip'', JString ''10.0.0.2''), (''port'', JInt 9001)]
     ''peer_id'' = JString ''abc''
   \<and> truthy (py_or
        (dict_get [(''peer_id'', JString ''abc''), (''ip'', JString ''10.0.0.2''),
                   (''port'', JInt 9001)] ''ip'')
        (dict_get [(''peer_id'', JString ''abc''), (''ip'', JString ''10.0.0.2''),
                   (''port'', JInt 9001)] ''ip_address''))
   \<and> register always_prints 100
       (JObject [(''peer_id'', JString ''abc''), (''ip'', JString ''10.0.0.2''),
                 (''port'', JInt 9001)])
       [(KStr ''abc'',
         \<lparr>peer_id = JString ''abc'', ip = JString ''10.0.0.1'', port = JInt 9000,
          is_public = JBool True, last_seen = 7, registered_at = 5\<rparr>)]
     = ([send_response 201 (RegisterReply (JString ''abc'')),
         log_message (LogRegister Updated ''abc'' (JString ''10.0.0.2'') (JInt 9001)
                        (JBool False))],
        [(KStr ''abc'',
          \<lparr>peer_id = JString ''abc'', ip = JString ''10.0.0.2'', port = JInt 9001,
           is_public = JBool False, last_seen = 100, registered_at = 5\<rparr>)])
   \<and> register always_prints 100
       (JObject [(''peer_id'', JString ''abc''), (''ip'', JString ''10.0.0.2''),
                 (''port'', JInt 9001)])
       [(KStr ''xyz'',
         \<lparr>peer_id = JString ''xyz'', ip = JString ''10.0.0.9'', port = JInt 8443,
          is_public = JBool False, last_seen = 3, registered_at = 3\<rparr>)]
     = ([send_response 201 (RegisterReply (JString ''abc'')),
         log_message (LogRegister Registered ''abc'' (JString ''10.0.0.2'') (JInt 9001)
                        (JBool False))],
        [(KStr ''xyz'',
          \<lparr>peer_id = JString ''xyz'', ip = JString ''10.0.0.9'', port = JInt 8443,
           is_public = JBool False, last_seen = 3, registered_at = 3\<rparr>),
         (KStr ''abc'',
          \<lparr>peer_id = JString ''abc'', ip = JString ''10.0.0.2'', port = JInt 9001,
           is_public = JBool False, last_seen = 100, registered_at = 100\<rparr>)])"
proof -
  let ?d = "[(''peer_id'', JString ''abc''), (''ip'', JString ''10.0.0.2''), (''port'', JInt 9001)]"
  let ?old = "[(KStr ''abc'',
         \<lparr>peer_id = JString ''abc'', ip = JString ''10.0.0.1'', port = JInt 9000,
          is_public = JBool True, last_seen = 7, registered_at = 5\<rparr>)]"
  let ?other = "[(KStr ''xyz'',
         \<lparr>peer_id = JString ''xyz'', ip = JString ''10.0.0.9'', port = JInt 8443,
          is_public = JBool False, last_seen = 3, registered_at = 3\<rparr>)]"
  have h1: "dict_get ?d ''peer_id'' = JString ''abc''"
    by (simp add: dict_get_def)
  have h2: "''abc'' \<noteq> []" by simp
  have h3: "truthy (py_or (dict_get ?d ''ip'') (dict_get ?d ''ip_address''))"
    by (simp add: dict_get_def py_or_def)
  have fields: "py_or (dict_get ?d ''ip'') (dict_get ?d ''ip_address'') = JString ''10.0.0.2''"
    "dict_get_default ?d ''port'' (JInt 8443) = JInt 9001"
    "dict_get_default ?d ''is_public'' (JBool False) = JBool False"
    by (simp_all add: dict_get_def dict_get_default_def py_or_def)
  from register_updates_in_place_or_inserts
         [where log_raises = always_prints and now = 100 and peers = ?old, OF h1 h2 h3]
  obtain act info peers' where
    u: "register always_prints 100 (JObject ?d) ?old
          = ([send_response 201 (RegisterReply (JString ''abc'')),
              log_or_fail always_prints
                (LogRegister act (take 16 ''abc'') (ip info) (port info) (is_public info))],
             peers')"
       "map_of peers' (KStr ''abc'') = Some info"
       "peer_id info = JString ''abc''"
       "ip info = py_or (dict_get ?d ''ip'') (dict_get ?d ''ip_address'')"
       "port info = dict_get_default ?d ''port'' (JInt 8443)"
       "is_public info = dict_get_default ?d ''is_public'' (JBool False)"
       "last_seen info = 100"
       "act = Updated" "registered_at info = 5" "length peers' = 1"
    by auto
  from u(2) u(10) have "peers' = [(KStr ''abc'', info)]"
    by (cases peers') (auto split: if_splits)
  moreover from u(3-7) u(9) fields
  have "info = \<lparr>peer_id = JString ''abc'', ip = JString ''10.0.0.2'', port = JInt 9001,
           is_public = JBool False, last_seen = 100, registered_at = 5\<rparr>"
    by (cases info) simp
  ultimately have update: "register always_prints 100 (JObject ?d) ?old
     = ([send_response 201 (RegisterReply (JString ''abc'')),
         log_message (LogRegister Updated ''abc'' (JString ''10.0.0.2'') (JInt 9001)
                        (JBool False))],
        [(KStr ''abc'',
          \<lparr>peer_id = JString ''abc'', ip = JString ''10.0.0.2'', port = JInt 9001,
           is_public = JBool False, last_seen = 100, registered_at = 5\<rparr>)])"
    using u(1) u(8) fields by (simp add: log_or_fail_def always_prints_def)
  have insert: "register always_prints 100 (JObject ?d) ?other
     = ([send_response 201 (RegisterReply (JString ''abc'')),
         log_message (LogRegister Registered ''abc'' (JString ''10.0.0.2'') (JInt 9001)
                        (JBool False))],
        [(KStr ''xyz'',
          \<lparr>peer_id = JString ''xyz'', ip = JString ''10.0.0.9'', port = JInt 8443,
           is_public = JBool False, last_seen = 3, registered_at = 3\<rparr>),
         (KStr ''abc'',
          \<lparr>peer_id = JString ''abc'', ip = JString ''10.0.0.2'', port = JInt 9001,
           is_public = JBool False, last_seen = 100, registered_at = 100\<rparr>)])"
    by (simp add: register_def dict_get_def dict_get_default_def py_or_def log_or_fail_def
                  always_prints_def Let_def)
  show ?thesis using h1 h3 update insert by (intro conjI)
qed


text \<open>
  C3. The listing is meant to remove every entry with \<open>now - last_seen \<ge> 300\<close> and to
  return the others. On the registry that one registration with the numeric
  \<open>peer_id\<close> 5 leaves behind (\<open>numeric_peer_id_is_stored\<close>), a listing 1000 seconds later
  answers 500 and removes nothing: the stale entry stays, and so it does at every
  later listing. \<open>do_GET_peers_completes\<close> is the behaviour the claim describes, under
  the condition that every stale entry can be logged; \<open>do_GET_peers_stops\<close> is what
  happens otherwise.
\<close>

theorem listing_keeps_stale_numeric_peer:
  "do_GET_peers always_prints 1000
     [(KNum 5,
       \<lparr>peer_id = JInt 5, ip = JString ''10.0.0.5'', port = JInt 8443,
        is_public = JBool False, last_seen = 0, registered_at = 0\<rparr>)]
   = ([send_error 500 (Str TypeError)],
      [(KNum 5,
        \<lparr>peer_id = JInt 5, ip = JString ''10.0.0.5'', port = JInt 8443,
         is_public = JBool False, last_seen = 0, registered_at = 0\<rparr>)])"
  by (simp add: do_GET_peers_def)

text \<open>
  C4. Lookup and statistics return the registry as it was (\<open>do_GET_lookup_frame\<close>,
  \<open>do_GET_stats_frame\<close>), and so does any run of them (\<open>serve_reads_frame\<close>). The last
  part of the claim, that a stale peer is gone from the registry after a listing, fails
  on the registry left by registering the numeric \<open>peer_id\<close> 5 and then \<open>abc\<close>
  (\<open>numeric_peer_id_is_stored\<close>, \<open>string_peer_id_is_stored_next\<close>): the listing 1000
  seconds later raises at the first entry and answers 500, and the stale \<open>abc\<close> is
  still stored and still counted in \<open>total\<close> by the statistics that follow.
\<close>

theorem listing_leaves_stale_peer_behind:
  "do_GET_peers always_prints 1000
     [(KNum 5,
       \<lparr>peer_id = JInt 5, ip = JString ''10.0.0.5'', port = JInt 8443,
        is_public = JBool False, last_seen = 0, registered_at = 0\<rparr>),
      (KStr ''abc'',
       \<lparr>peer_id = JString ''abc'', ip = JString ''10.0.0.1'', port = JInt 8443,
        is_public = JBool False, last_seen = 0, registered_at = 0\<rparr>)]
   = ([send_error 500 (Str TypeError)],
      [(KNum 5,
        \<lparr>peer_id = JInt 5, ip = JString ''10.0.0.5'', port = JInt 8443,
         is_public = JBool False, last_seen = 0, registered_at = 0\<rparr>),
       (KStr ''abc'',
        \<lparr>peer_id = JString ''abc'', ip = JString ''10.0.0.1'', port = JInt 8443,
         is_public = JBool False, last_seen = 0, registered_at = 0\<rparr>)])
   \<and> do_GET_stats 1001 0
       (snd (do_GET_peers always_prints 1000
          [(KNum 5,
            \<lparr>peer_id = JInt 5, ip = JString ''10.0.0.5'', port = JInt 8443,
             is_public = JBool False, last_seen = 0, registered_at = 0\<rparr>),
           (KStr ''abc'',
            \<lparr>peer_id = JString ''abc'', ip = JString ''10.0.0.1'', port = JInt 8443,
             is_public = JBool False, last_seen = 0, registered_at = 0\<rparr>)]))
     = ([send_response 200
           (StatsReply \<lparr>total_peers = 2, active_peers = 0, public_peers = 0, private_peers = 0,
                        uptime_seconds = 1001\<rparr>)],
        [(KNum 5,
          \<lparr>peer_id = JInt 5, ip = JString ''10.0.0.5'', port = JInt 8443,
           is_public = JBool False, last_seen = 0, registered_at = 0\<rparr>),
         (KStr ''abc'',
          \<lparr>peer_id = JString ''abc'', ip = JString ''10.0.0.1'', port = JInt 8443,
           is_public = JBool False, last_seen = 0, registered_at = 0\<rparr>)])"
  by (simp add: do_GET_peers_def do_GET_stats_def py_int_def)

text \<open>
  C5, as amended. The statistics count every stored entry in \<open>total\<close>, the entries
  with \<open>now - last_seen < 300\<close> in \<open>active\<close>, and in \<open>public\<close> the active entries whose
  \<open>is_public\<close> Python takes as true (line 235 filters on the value itself, and a
  registration stores any JSON value there: \<open>string_is_public_is_stored\<close>); when every
  stored \<open>is_public\<close> is a boolean, these are the entries with \<open>is_public = true\<close>.
  \<open>private = active - public\<close>, so that \<open>public + private = active\<close> and
  \<open>0 \<le> public \<le> active \<le> total\<close>. \<open>uptime_seconds\<close> is \<open>int(now - server_start_time)\<close>:
  the difference cut to whole seconds, toward zero, and not the difference itself.
  The registry is returned as it was.
\<close>

theorem stats_counts_and_whole_second_uptime:
  "\<exists>st. do_GET_stats now server_start_time peers = ([send_response 200 (StatsReply st)], peers)
     \<and> total_peers st = int (length peers)
     \<and> active_peers st = int (length (filter (\<lambda>p. now - last_seen (snd p) < 300) peers))
     \<and> public_peers st
         = int (length (filter (\<lambda>p. now - last_seen (snd p) < 300 \<and> truthy (is_public (snd p)))
                         peers))
     \<and> ((\<forall>p \<in> set peers. \<exists>b. is_public (snd p) = JBool b) \<longrightarrow>
           public_peers st
             = int (length (filter (\<lambda>p. now - last_seen (snd p) < 300
                                         \<and> is_public (snd p) = JBool True) peers)))
     \<and> private_peers st = active_peers st - public_peers st
     \<and> public_peers st + private_peers st = active_peers st
     \<and> 0 \<le> public_peers st \<and> public_peers st \<le> active_peers st
     \<and> active_peers st \<le> total_peers st
     \<and> uptime_seconds st = py_int (now - server_start_time)
     \<and> (server_start_time \<le> now \<longrightarrow>
           real_of_int (uptime_seconds st) \<le> now - server_start_time
           \<and> now - server_start_time < real_of_int (uptime_seconds st) + 1)"
proof -
  let ?active = "filter (\<lambda>info. now - last_seen info < 300) (map snd peers)"
  let ?public = "filter (\<lambda>p. truthy (is_public p)) ?active"
  let ?st = "\<lparr>total_peers = int (length peers), active_peers = int (length ?active),
              public_peers = int (length ?public),
              private_peers = int (length ?active) - int (length ?public),
              uptime_seconds = py_int (now - server_start_time)\<rparr>"
  have run: "do_GET_stats now server_start_time peers
               = ([send_response 200 (StatsReply ?st)], peers)"
    by (simp add: do_GET_stats_def Let_def)
  have active: "length ?active = length (filter (\<lambda>p. now - last_seen (snd p) < 300) peers)"
    by (simp add: filter_map o_def)
  have public: "length ?public
      = length (filter (\<lambda>p. now - last_seen (snd p) < 300 \<and> truthy (is_public (snd p))) peers)"
    by (simp add: filter_map o_def conj_commute)
  have booleans: "filter (\<lambda>p. now - last_seen (snd p) < 300 \<and> truthy (is_public (snd p))) peers
      = filter (\<lambda>p. now - last_seen (snd p) < 300 \<and> is_public (snd p) = JBool True) peers"
    if "\<forall>p \<in> set peers. \<exists>b. is_public (snd p) = JBool b"
  proof (rule filter_cong [OF refl])
    fix p assume "p \<in> set peers"
    with that obtain b where "is_public (snd p) = JBool b" by blast
    then show "(now - last_seen (snd p) < 300 \<and> truthy (is_public (snd p)))
                 = (now - last_seen (snd p) < 300 \<and> is_public (snd p) = JBool True)"
      by simp
  qed
  have le1: "length ?public \<le> length ?active"
    by (rule length_filter_le)
  have le2: "length ?active \<le> length peers"
    using length_filter_le [of _ "map snd peers"] by simp
  have up: "server_start_time \<le> now \<longrightarrow>
           real_of_int (py_int (now - server_start_time)) \<le> now - server_start_time
           \<and> now - server_start_time < real_of_int (py_int (now - server_start_time)) + 1"
    using py_int_bounds [of "now - server_start_time"] by simp
  show ?thesis
    using run active public booleans le1 le2 up by (intro exI [of _ ?st]) simp
qed

theorem stats_counts_and_whole_second_uptime_witness:
  "(0::real) \<le> 2001 / 2
   \<and> do_GET_stats (2001 / 2) 0
        [(KStr ''a'', \<lparr>peer_id = JString ''a'', ip = JString ''10.0.0.1'', port = JInt 8443,
                       is_public = JBool True, last_seen = 900, registered_at = 10\<rparr>),
         (KStr ''b'', \<lparr>peer_id = JString ''b'', ip = JString ''10.0.0.2'', port = JInt 8443,
                       is_public = JBool False, last_seen = 800, registered_at = 20\<rparr>),
         (KStr ''c'', \<lparr>peer_id = JString ''c'', ip = JString ''10.0.0.3'', port = JInt 8443,
                       is_public = JBool True, last_seen = 30, registered_at = 30\<rparr>)]
      = ([send_response 200
            (StatsReply \<lparr>total_peers = 3, active_peers = 2, public_peers = 1, private_peers = 1,
                         uptime_seconds = 1000\<rparr>)],
         [(KStr ''a'', \<lparr>peer_id = JString ''a'', ip = JString ''10.0.0.1'', port = JInt 8443,
                       is_public = JBool True, last_seen = 900, registered_at = 10\<rparr>),
         (KStr ''b'', \<lparr>peer_id = JString ''b'', ip = JString ''10.0.0.2'', port = JInt 8443,
                       is_public = JBool False, last_seen = 800, registered_at = 20\<rparr>),
         (KStr ''c'', \<lparr>peer_id = JString ''c'', ip = JString ''10.0.0.3'', port = JInt 8443,
                       is_public = JBool True, last_seen = 30, registered_at = 30\<rparr>)])"
  using stats_counts_and_whole_second_uptime [of "2001 / 2" 0
        "[(KStr ''a'', \<lparr>peer_id = JString ''a'', ip = JString ''10.0.0.1'', port = JInt 8443,
                       is_public = JBool True, last_seen = 900, registered_at = 10\<rparr>),
         (KStr ''b'', \<lparr>peer_id = JString ''b'', ip = JString ''10.0.0.2'', port = JInt 8443,
                       is_public = JBool False, last_seen = 800, registered_at = 20\<rparr>),
         (KStr ''c'', \<lparr>peer_id = JString ''c'', ip = JString ''10.0.0.3'', port = JInt 8443,
                       is_public = JBool True, last_seen = 30, registered_at = 30\<rparr>)]"]
  by (simp add: do_GET_stats_def py_int_def)

text \<open>
  The claim as written fails ten and a half seconds after the start on the registry
  that \<open>string_is_public_is_stored\<close> builds. Its only record has \<open>is_public = "false"\<close>,
  which is not \<open>true\<close>, so the claim's \<open>public\<close> is 0 and its \<open>private\<close> 1; the answer
  carries \<open>public_peers = 1\<close> and \<open>private_peers = 0\<close>. The claim's \<open>uptime_seconds\<close> is
  10.5; the answer carries 10.
\<close>

theorem stats_public_and_uptime_counterexample:
  "do_GET_stats (21 / 2) 0
     [(KStr ''a'',
       \<lparr>peer_id = JString ''a'', ip = JString ''10.0.0.1'', port = JInt 8443,
        is_public = JString ''false'', last_seen = 10, registered_at = 10\<rparr>)]
     = ([send_response 200
           (StatsReply \<lparr>total_peers = 1, active_peers = 1, public_peers = 1, private_peers = 0,
                        uptime_seconds = 10\<rparr>)],
        [(KStr ''a'',
          \<lparr>peer_id = JString ''a'', ip = JString ''10.0.0.1'', port = JInt 8443,
           is_public = JString ''false'', last_seen = 10, registered_at = 10\<rparr>)])
   \<and> is_public \<lparr>peer_id = JString ''a'', ip = JString ''10.0.0.1'', port = JInt 8443,
                is_public = JString ''false'', last_seen = 10, registered_at = 10\<rparr>
       \<noteq> JBool True
   \<and> real_of_int 10 \<noteq> 21 / 2 - 0"
  by (simp add: do_GET_stats_def py_int_def)

text \<open>
  C6. A registration whose \<open>peer_id\<close> is missing or empty, or whose \<open>ip\<close> and
  \<open>ip_address\<close> are both missing or empty, is answered with the client error 400
  "Missing peer_id or ip", and the registry is left exactly as it was. This holds for
  the block of lines 39-46 and for the whole branch when the body was read (a parsed,
  nonzero Content-Length).
\<close>

theorem register_rejects_missing_fields:
  assumes "map_of d ''peer_id'' = None \<or> map_of d ''peer_id'' = Some (JString [])
             \<or> ((map_of d ''ip'' = None \<or> map_of d ''ip'' = Some (JString []))
                  \<and> (map_of d ''ip_address'' = None
                        \<or> map_of d ''ip_address'' = Some (JString [])))"
  shows "register log_raises now (JObject d) peers
           = ([send_error 400 (Msg ''Missing peer_id or ip'')], peers)
         \<and> (\<forall>h n. parse_int h = Some n \<and> n \<noteq> 0 \<longrightarrow>
                do_POST_register parse_int log_raises now (Some h) (Inr (JObject d)) peers
                  = ([send_error 400 (Msg ''Missing peer_id or ip'')], peers))"
proof -
  have "\<not> truthy (dict_get d ''peer_id'')
          \<or> \<not> truthy (py_or (dict_get d ''ip'') (dict_get d ''ip_address''))"
    using assms by (auto simp: dict_get_def py_or_def)
  then have r: "register log_raises now (JObject d) peers
                  = ([send_error 400 (Msg ''Missing peer_id or ip'')], peers)"
    by (rule register_rejects)
  then show ?thesis by (simp add: do_POST_register_def)
qed

theorem register_rejects_missing_fields_witness:
  "map_of [(''ip'', JString ''10.0.0.1'')] ''peer_id'' = None
   \<and> register always_prints 5 (JObject [(''ip'', JString ''10.0.0.1'')])
         [(KStr ''abc'',
           \<lparr>peer_id = JString ''abc'', ip = JString ''10.0.0.9'', port = JInt 8443,
            is_public = JBool False, last_seen = 1, registered_at = 1\<rparr>)]
       = ([send_error 400 (Msg ''Missing peer_id or ip'')],
          [(KStr ''abc'',
            \<lparr>peer_id = JString ''abc'', ip = JString ''10.0.0.9'', port = JInt 8443,
             is_public = JBool False, last_seen = 1, registered_at = 1\<rparr>)])"
proof -
  have h: "map_of [(''ip'', JString ''10.0.0.1'')] ''peer_id'' = None" by simp
  from register_rejects_missing_fields [of "[(''ip'', JString ''10.0.0.1'')]", OF disjI1, OF h]
  show ?thesis using h by blast
qed

text \<open>
  C7. A lookup with a requested \<open>peer_id\<close> and a \<open>count\<close> that is absent or an integer
  writes a 200 whose sequence is the entry of that peer when it is in the registry and
  \<open>now - last_seen < 300\<close>, and empty otherwise: at most one element. The entry is the
  projection \<open>{peer_id, ip_address, port, is_public}\<close> of the stored record. The value of
  \<open>count\<close> does not occur in the answer: two requests that ask for the same peer get
  the same events, whatever their counts. The registry is returned as it was.
\<close>

theorem lookup_returns_the_fresh_record:
  assumes "map_of params ''peer_id'' = Some (s # vs)" and "s \<noteq> []"
    and "map_of params ''count'' = None
           \<or> (\<exists>c cs n. map_of params ''count'' = Some (c # cs) \<and> parse_int c = Some n)"
  shows "\<exists>found.
           do_GET_lookup parse_int log_raises now params peers
             = ([send_response 200 (LookupReply found (length found)),
                 log_or_fail log_raises (LogLookup (take 16 s) (length found))], peers)
           \<and> found = (case map_of peers (KStr s) of
                        Some info \<Rightarrow>
                          if now - last_seen info < 300
                          then [LookupEntry (peer_id info) (ip info) (port info) (is_public info)]
                          else []
                      | None \<Rightarrow> [])
           \<and> length found \<le> 1
           \<and> (\<forall>params' vs'.
                 map_of params' ''peer_id'' = Some (s # vs')
                 \<and> (map_of params' ''count'' = None
                      \<or> (\<exists>c cs n. map_of params' ''count'' = Some (c # cs)
                                     \<and> parse_int c = Some n))
                 \<longrightarrow> do_GET_lookup parse_int log_raises now params' peers
                       = do_GET_lookup parse_int log_raises now params peers)"
proof -
  let ?found = "case map_of peers (KStr s) of
                  None \<Rightarrow> []
                | Some info \<Rightarrow>
                    if now - last_seen info < 300
                    then [LookupEntry (peer_id info) (ip info) (port info) (is_public info)]
                    else []"
  have answer: "do_GET_lookup parse_int log_raises now ps peers
             = ([send_response 200 (LookupReply ?found (length ?found)),
                 log_or_fail log_raises (LogLookup (take 16 s) (length ?found))], peers)"
    if "map_of ps ''peer_id'' = Some (s # ws)"
      and "map_of ps ''count'' = None
           \<or> (\<exists>c cs n. map_of ps ''count'' = Some (c # cs) \<and> parse_int c = Some n)"
    for ps ws
    using do_GET_lookup_answers [OF that(1) assms(2) that(2)] by (simp add: Let_def)
  have short: "length ?found \<le> 1"
    by (simp split: option.split)
  have same: "?found = (case map_of peers (KStr s) of
                        Some info \<Rightarrow>
                          if now - last_seen info < 300
                          then [LookupEntry (peer_id info) (ip info) (port info) (is_public info)]
                          else []
                      | None \<Rightarrow> [])"
    by (simp split: option.split)
  show ?thesis
    using answer [OF assms(1) assms(3)] answer short same by (intro exI [of _ ?found]) auto
qed

theorem lookup_returns_the_fresh_record_witness:
  "map_of [(''peer_id'', [''abc'']), (''count'', [''3''])] ''peer_id'' = Some [''abc'']
   \<and> decimal ''3'' = Some 3
   \<and> do_GET_lookup decimal always_prints 200 [(''peer_id'', [''abc'']), (''count'', [''3''])]
         [(KStr ''abc'',
           \<lparr>peer_id = JString ''abc'', ip = JString ''10.0.0.1'', port = JInt 9000,
            is_public = JBool True, last_seen = 100, registered_at = 100\<rparr>)]
       = ([send_response 200
             (LookupReply [LookupEntry (JString ''abc'') (JString ''10.0.0.1'') (JInt 9000)
                             (JBool True)] 1),
           log_message (LogLookup ''abc'' 1)],
          [(KStr ''abc'',
            \<lparr>peer_id = JString ''abc'', ip = JString ''10.0.0.1'', port = JInt 9000,
             is_public = JBool True, last_seen = 100, registered_at = 100\<rparr>)])
   \<and> do_GET_lookup decimal always_prints 200 [(''peer_id'', [''abc''])]
         [(KStr ''abc'',
           \<lparr>peer_id = JString ''abc'', ip = JString ''10.0.0.1'', port = JInt 9000,
            is_public = JBool True, last_seen = 100, registered_at = 100\<rparr>)]
       = do_GET_lookup decimal always_prints 200 [(''peer_id'', [''abc'']), (''count'', [''3''])]
         [(KStr ''abc'',
           \<lparr>peer_id = JString ''abc'', ip = JString ''10.0.0.1'', port = JInt 9000,
            is_public = JBool True, last_seen = 100, registered_at = 100\<rparr>)]"
proof -
  have h1: "map_of [(''peer_id'', [''abc'']), (''count'', [''3''])] ''peer_id'' = Some [''abc'']"
    by simp
  have h2: "''abc'' \<noteq> []" by simp
  have d3: "decimal ''3'' = Some 3" by (rule decimal_examples)
  have h3: "map_of [(''peer_id'', [''abc'']), (''count'', [''3''])] ''count'' = None
              \<or> (\<exists>c cs n. map_of [(''peer_id'', [''abc'']), (''count'', [''3''])] ''count''
                               = Some (c # cs) \<and> decimal c = Some n)"
    using d3 by simp
  from lookup_returns_the_fresh_record
         [where parse_int = decimal and log_raises = always_prints and now = 200, OF h1 h2 h3]
  show ?thesis
    using h1 d3 by (simp add: log_or_fail_def always_prints_def)
qed

text \<open>
  C8. On an accepted registration the stored address is the value of \<open>ip\<close> when that is
  there and not empty, and the value of \<open>ip_address\<close> when \<open>ip\<close> is absent; an absent
  \<open>port\<close> is stored as 8443 and an absent \<open>is_public\<close> as false, and a given one as it
  is. A body that carries the address under \<open>ip_address\<close> is handled exactly as the same
  body carrying it under \<open>ip\<close>: same events, same registry.
\<close>

theorem register_address_keys_and_defaults:
  assumes "dict_get d ''peer_id'' = JString s" and "s \<noteq> []"
    and "truthy (py_or (dict_get d ''ip'') (dict_get d ''ip_address''))"
  shows "\<exists>info.
           map_of (snd (register log_raises now (JObject d) peers)) (KStr s) = Some info
         \<and> (truthy (dict_get d ''ip'') \<longrightarrow> ip info = dict_get d ''ip'')
         \<and> (map_of d ''ip'' = None \<longrightarrow> ip info = dict_get d ''ip_address'')
         \<and> (map_of d ''port'' = None \<longrightarrow> port info = JInt 8443)
         \<and> (\<forall>v. map_of d ''port'' = Some v \<longrightarrow> port info = v)
         \<and> (map_of d ''is_public'' = None \<longrightarrow> is_public info = JBool False)
         \<and> (\<forall>v. map_of d ''is_public'' = Some v \<longrightarrow> is_public info = v)
         \<and> (\<forall>a d'. map_of d' ''ip'' = None \<and> map_of d' ''ip_address'' = None \<longrightarrow>
               register log_raises now (JObject ((''ip_address'', a) # d')) peers
                 = register log_raises now (JObject ((''ip'', a) # d')) peers)"
proof -
  let ?info = "\<lparr>peer_id = JString s,
               ip = py_or (dict_get d ''ip'') (dict_get d ''ip_address''),
               port = dict_get_default d ''port'' (JInt 8443),
               is_public = dict_get_default d ''is_public'' (JBool False),
               last_seen = now,
               registered_at =
                 (case map_of peers (KStr s) of Some old \<Rightarrow> registered_at old | None \<Rightarrow> now)\<rparr>"
  have stored: "map_of (snd (register log_raises now (JObject d) peers)) (KStr s) = Some ?info"
    by (simp add: register_accepts [OF assms] map_of_dict_setitem)
  have fields: "(truthy (dict_get d ''ip'') \<longrightarrow> ip ?info = dict_get d ''ip'')
         \<and> (map_of d ''ip'' = None \<longrightarrow> ip ?info = dict_get d ''ip_address'')
         \<and> (map_of d ''port'' = None \<longrightarrow> port ?info = JInt 8443)
         \<and> (\<forall>v. map_of d ''port'' = Some v \<longrightarrow> port ?info = v)
         \<and> (map_of d ''is_public'' = None \<longrightarrow> is_public ?info = JBool False)
         \<and> (\<forall>v. map_of d ''is_public'' = Some v \<longrightarrow> is_public ?info = v)"
    by (simp add: py_or_def dict_get_def dict_get_default_def)
  have either: "register log_raises now (JObject ((''ip_address'', a) # d')) peers
                 = register log_raises now (JObject ((''ip'', a) # d')) peers"
    if "map_of d' ''ip'' = None" "map_of d' ''ip_address'' = None" for a d'
    using that
    by (cases "truthy a")
       (simp_all add: register_def dict_get_def dict_get_default_def py_or_def)
  show ?thesis
    using stored fields either by (intro exI [of _ ?info]) blast
qed

theorem register_address_keys_and_defaults_witness:
  "dict_get [(''ip_address'', JString ''10.0.0.7''), (''peer_id'', JString ''abc'')] ''peer_id''
     = JString ''abc''
   \<and> truthy (py_or
        (dict_get [(''ip_address'', JString ''10.0.0.7''), (''peer_id'', JString ''abc'')] ''ip'')
        (dict_get [(''ip_address'', JString ''10.0.0.7''), (''peer_id'', JString ''abc'')]
           ''ip_address''))
   \<and> register always_prints 50
        (JObject [(''ip_address'', JString ''10.0.0.7''), (''peer_id'', JString ''abc'')]) []
      = ([send_response 201 (RegisterReply (JString ''abc'')),
          log_message (LogRegister Registered ''abc'' (JString ''10.0.0.7'') (JInt 8443)
                         (JBool False))],
         [(KStr ''abc'',
           \<lparr>peer_id = JString ''abc'', ip = JString ''10.0.0.7'', port = JInt 8443,
            is_public = JBool False, last_seen = 50, registered_at = 50\<rparr>)])
   \<and> register always_prints 50
        (JObject [(''ip_address'', JString ''10.0.0.7''), (''peer_id'', JString ''abc'')]) []
      = register always_prints 50
        (JObject [(''ip'', JString ''10.0.0.7''), (''peer_id'', JString ''abc'')]) []"
proof -
  have h1: "dict_get [(''ip_address'', JString ''10.0.0.7''), (''peer_id'', JString ''abc'')]
              ''peer_id'' = JString ''abc''"
    by (simp add: dict_get_def)
  have h2: "''abc'' \<noteq> []" by simp
  have h3: "truthy (py_or
        (dict_get [(''ip_address'', JString ''10.0.0.7''), (''peer_id'', JString ''abc'')] ''ip'')
        (dict_get [(''ip_address'', JString ''10.0.0.7''), (''peer_id'', JString ''abc'')]
           ''ip_address''))"
    by (simp add: dict_get_def py_or_def)
  have run: "register always_prints 50
        (JObject [(''ip_address'', JString ''10.0.0.7''), (''peer_id'', JString ''abc'')]) []
      = ([send_response 201 (RegisterReply (JString ''abc'')),
          log_message (LogRegister Registered ''abc'' (JString ''10.0.0.7'') (JInt 8443)
                         (JBool False))],
         [(KStr ''abc'',
           \<lparr>peer_id = JString ''abc'', ip = JString ''10.0.0.7'', port = JInt 8443,
            is_public = JBool False, last_seen = 50, registered_at = 50\<rparr>)])"
    by (simp add: register_def dict_get_def dict_get_default_def py_or_def log_or_fail_def
                  always_prints_def Let_def)
  have absent: "map_of [(''peer_id'', JString ''abc'')] ''ip'' = None
                  \<and> map_of [(''peer_id'', JString ''abc'')] ''ip_address'' = None"
    by simp
  from register_address_keys_and_defaults
         [where log_raises = always_prints and now = 50 and peers = "[]", OF h1 h2 h3]
  have "\<forall>a d'. map_of d' ''ip'' = None \<and> map_of d' ''ip_address'' = None \<longrightarrow>
               register always_prints 50 (JObject ((''ip_address'', a) # d')) []
                 = register always_prints 50 (JObject ((''ip'', a) # d')) []"
    by blast
  with absent have both: "register always_prints 50
        (JObject [(''ip_address'', JString ''10.0.0.7''), (''peer_id'', JString ''abc'')]) []
      = register always_prints 50
        (JObject [(''ip'', JString ''10.0.0.7''), (''peer_id'', JString ''abc'')]) []"
    by blast
  show ?thesis
    using h1 h3 run both by (intro conjI)
qed



end
